theory Spec2Isabelle
  imports Main "HOL-Library.Word"
begin

section \<open>JavaScript strings\<close>

text \<open>
  A JavaScript string is a sequence of UTF-16 code units; \<open>length\<close>, \<open>substring\<close>,
  \<open>trim\<close>, \<open>includes\<close> and a regular expression without the \<open>u\<close> flag all work on
  code units. The literals of the source are ASCII and are written through \<open>str\<close>.
\<close>

type_synonym jsstring = "16 word list"

definition str :: "string \<Rightarrow> jsstring" where
  "str s = map (\<lambda>c. of_char c) s"

text \<open>
  ECMAScript WhiteSpace and LineTerminator code points: the characters that
  \<open>String.prototype.trim\<close> strips and that the class \<open>\s\<close> matches.
\<close>

definition isWhiteSpace :: "16 word \<Rightarrow> bool" where
  "isWhiteSpace c \<longleftrightarrow>
     c = 0x9 \<or> c = 0xA \<or> c = 0xB \<or> c = 0xC \<or> c = 0xD \<or> c = 0x20 \<or> c = 0xA0 \<or>
     c = 0x1680 \<or> (0x2000 \<le> c \<and> c \<le> 0x200A) \<or> c = 0x2028 \<or> c = 0x2029 \<or>
     c = 0x202F \<or> c = 0x205F \<or> c = 0x3000 \<or> c = 0xFEFF"

definition trim :: "jsstring \<Rightarrow> jsstring" where
  "trim s = rev (dropWhile isWhiteSpace (rev (dropWhile isWhiteSpace s)))"

text \<open>\<open>s.substring(0, n)\<close> for a non-negative integer \<open>n\<close>.\<close>

definition substring0 :: "jsstring \<Rightarrow> nat \<Rightarrow> jsstring" where
  "substring0 s n = take n s"

definition startsWith :: "jsstring \<Rightarrow> jsstring \<Rightarrow> bool" where
  "startsWith s p \<longleftrightarrow> take (length p) s = p"

text \<open>\<open>s.includes(p)\<close>: \<open>p\<close> occurs in \<open>s\<close> at some position.\<close>

fun includes_str :: "jsstring \<Rightarrow> jsstring \<Rightarrow> bool" where
  "includes_str [] p = (p = [])"
| "includes_str (c # cs) p = (startsWith (c # cs) p \<or> includes_str cs p)"

text \<open>The decimal rendering of a non-negative integer, as a template literal produces it.\<close>

fun numberToString :: "nat \<Rightarrow> jsstring" where
  "numberToString n =
     (if n < 10 then [of_nat (48 + n)]
      else numberToString (n div 10) @ [of_nat (48 + n mod 10)])"

declare numberToString.simps [simp del]

section \<open>The regular expression \<open>/SUMMARY:\s*(.+?)(?=TOPICS:|$)/s\<close>\<close>

text \<open>
  \<open>String.prototype.match\<close> with a non-global expression tries the start positions from
  left to right and, at each one, runs the backtracking matcher. The four parts of the
  pattern are modelled in the order the matcher runs them; every function returns the
  text of capture group 1 of the first successful alternative, or \<open>None\<close>.

  The lookahead \<open>(?=TOPICS:|$)\<close>: the rest of the input starts with \<open>TOPICS:\<close>, or is
  empty (no \<open>m\<close> flag, so \<open>$\<close> is the end of the input only).
\<close>

definition lookahead :: "jsstring \<Rightarrow> bool" where
  "lookahead rest \<longleftrightarrow> startsWith rest (str ''TOPICS:'') \<or> rest = []"

text \<open>
  The lazy group \<open>(.+?)\<close>, with the \<open>s\<close> flag (the dot matches every code unit): take one
  code unit, then try the lookahead, and take one more each time the lookahead fails.
\<close>

fun lazyGroup :: "jsstring \<Rightarrow> jsstring option" where
  "lazyGroup [] = None"
| "lazyGroup (c # cs) =
     (if lookahead cs then Some [c] else map_option ((#) c) (lazyGroup cs))"

text \<open>
  The greedy \<open>\s*\<close>: take a white-space code unit and go on; when the rest of the pattern
  fails after that, backtrack and run the rest of the pattern from here.
\<close>

fun afterMarker :: "jsstring \<Rightarrow> jsstring option" where
  "afterMarker [] = lazyGroup []"
| "afterMarker (c # cs) =
     (if isWhiteSpace c
      then (case afterMarker cs of Some g \<Rightarrow> Some g | None \<Rightarrow> lazyGroup (c # cs))
      else lazyGroup (c # cs))"

definition matchHere :: "jsstring \<Rightarrow> jsstring option" where
  "matchHere s =
     (if startsWith s (str ''SUMMARY:'')
      then afterMarker (drop (length (str ''SUMMARY:'')) s) else None)"

fun summaryMatch :: "jsstring \<Rightarrow> jsstring option" where
  "summaryMatch [] = matchHere []"
| "summaryMatch (c # cs) =
     (case matchHere (c # cs) of Some g \<Rightarrow> Some g | None \<Rightarrow> summaryMatch cs)"

section \<open>Values, exceptions and the collaborators of the route\<close>

text \<open>
  The values that cross the interfaces of the route: what \<open>JSON.parse\<close> produces,
  and \<open>undefined\<close>, which a property access on a missing key produces. A JSON number
  is kept as an integer: the code only tests numbers for truthiness. An object is the
  list of its own properties, each key once.
\<close>

datatype jsval =
    JUndefined
  | JNull
  | JBool bool
  | JNum int
  | JStr jsstring
  | JArr "jsval list"
  | JObj "(jsstring \<times> jsval) list"

fun truthy :: "jsval \<Rightarrow> bool" where
  "truthy JUndefined = False"
| "truthy JNull = False"
| "truthy (JBool b) = b"
| "truthy (JNum n) = (n \<noteq> 0)"
| "truthy (JStr s) = (s \<noteq> [])"
| "truthy (JArr xs) = True"
| "truthy (JObj kvs) = True"

text \<open>
  \<open>v.key\<close> for a value \<open>v\<close> that is neither \<open>null\<close> nor \<open>undefined\<close>, for the keys
  the code reads (\<open>candidates\<close>, \<open>content\<close>, \<open>parts\<close>, \<open>text\<close>, \<open>fileId\<close>): none of them
  is a built-in property of strings, arrays, numbers or booleans.
\<close>

fun getProp :: "jsval \<Rightarrow> jsstring \<Rightarrow> jsval" where
  "getProp (JObj kvs) k = (case map_of kvs k of None \<Rightarrow> JUndefined | Some v \<Rightarrow> v)"
| "getProp v k = JUndefined"

text \<open>\<open>v[0]\<close> for a value \<open>v\<close> that is neither \<open>null\<close> nor \<open>undefined\<close>.\<close>

fun getIndex0 :: "jsval \<Rightarrow> jsval" where
  "getIndex0 (JArr xs) = (case xs of [] \<Rightarrow> JUndefined | x # rest \<Rightarrow> x)"
| "getIndex0 (JStr s) = (case s of [] \<Rightarrow> JUndefined | c # rest \<Rightarrow> JStr [c])"
| "getIndex0 (JObj kvs) = getProp (JObj kvs) (str ''0'')"
| "getIndex0 v = JUndefined"

text \<open>Optional chaining \<open>v?.p\<close>: \<open>undefined\<close> when \<open>v\<close> is \<open>null\<close> or \<open>undefined\<close>.\<close>

definition optChain :: "jsval \<Rightarrow> (jsval \<Rightarrow> jsval) \<Rightarrow> jsval" where
  "optChain v access = (if v = JUndefined \<or> v = JNull then JUndefined else access v)"

text \<open>
  A thrown exception is a value: \<open>Inl\<close> of a sum. The message of a \<open>TypeError\<close> that
  the engine raises is engine-specific; a representative text stands for it.
\<close>

datatype exn = Error jsstring | TypeError jsstring

fun message :: "exn \<Rightarrow> jsstring" where
  "message (Error m) = m"
| "message (TypeError m) = m"

record fetch_request =
  url :: jsstring
  fetch_method :: jsstring
  fetch_headers :: "(jsstring \<times> jsstring) list"
  fetch_body :: jsval

text \<open>
  The upstream reply as the code reads it: \<open>response.ok\<close>, \<open>response.status\<close>,
  \<open>response.statusText\<close>, the outcome of \<open>await response.text()\<close>, which rejects when
  the body cannot be read, and the outcome of \<open>await response.json()\<close>, which rejects
  also on a body that is not JSON.
\<close>

record response =
  ok :: bool
  status :: nat
  statusText :: jsstring
  body_text :: "exn + jsstring"
  body_json :: "exn + jsval"

record decoded =
  email :: jsstring

record user =
  user_id :: jsstring

record stored_file =
  file_id :: jsstring
  userId :: jsstring
  transcript :: "jsstring option"
  summary :: "jsstring option"
  topic :: "jsstring option"

record request =
  req_method :: jsstring
  headers :: "(jsstring \<times> jsstring) list"
  body :: jsval

text \<open>
  What the route is given from outside: the process environment, \<open>fetch\<close>, and the
  functions imported from \<open>utils/auth.js\<close> and \<open>utils/database.js\<close>, which are taken
  as parameters with the interface the route uses. Each may throw. A \<open>null\<close> result is
  \<open>None\<close>.
\<close>

record environment =
  GEMINI_API_KEY :: "jsstring option"
  fetch :: "fetch_request \<Rightarrow> exn + response"
  getTokenFromRequest :: "request \<Rightarrow> exn + jsstring option"
  verifyToken :: "jsstring option \<Rightarrow> exn + decoded option"
  usersDB_findByEmail :: "jsstring \<Rightarrow> exn + user option"
  filesDB_findById :: "jsval \<Rightarrow> exn + stored_file option"
  filesDB_update :: "jsstring \<Rightarrow> (jsstring \<times> jsval) list \<Rightarrow> exn + stored_file option"

text \<open>
  The effects of a run, in order: the outbound HTTP calls and the datastore writes.
  Log lines are left out.
\<close>

datatype effect =
    Fetch fetch_request
  | FilesUpdate jsstring "(jsstring \<times> jsval) list"

fun isFetch :: "effect \<Rightarrow> bool" where
  "isFetch (Fetch r) = True"
| "isFetch (FilesUpdate i p) = False"

fun isFilesUpdate :: "effect \<Rightarrow> bool" where
  "isFilesUpdate (Fetch r) = False"
| "isFilesUpdate (FilesUpdate i p) = True"

section \<open>The summary generator\<close>

definition maxTranscriptLength :: nat where
  "maxTranscriptLength = 32000"

text \<open>The two fixed parts of the prompt template, around the embedded transcript.\<close>

definition promptHead :: jsstring where
  \<open>promptHead = str ''Analyze this transcript:\<newline>\<newline>"''\<close>

definition promptTail :: jsstring where
  \<open>promptTail = str ''"\<newline>\<newline>Provide:\<newline>1. SUMMARY: A 2-3 sentence summary.\<newline>2. TOPICS: 3-5 main topics, comma-separated.\<newline>3. INSIGHTS: 1-2 key insights.\<newline>\<newline>Format your response exactly like this:\<newline>SUMMARY: [Your summary]\<newline>TOPICS: [topic1, topic2]\<newline>INSIGHTS: [Your insights]''\<close>

definition summaryPromptOf :: "jsstring \<Rightarrow> jsstring" where
  "summaryPromptOf embedded = promptHead @ embedded @ promptTail"

text \<open>
  The argument of \<open>fetch\<close>, the same in both generators. The body is kept as the value
  handed to \<open>JSON.stringify\<close>. An unset key is rendered \<open>undefined\<close> by the template.
\<close>

definition fetchRequestOf :: "environment \<Rightarrow> jsstring \<Rightarrow> fetch_request" where
  "fetchRequestOf env summaryPrompt =
     \<lparr> url = str ''https://generativelanguage.googleapis.com/v1/models/gemini-1.5-flash:generateContent?key=''
              @ (case GEMINI_API_KEY env of None \<Rightarrow> str ''undefined'' | Some k \<Rightarrow> k),
       fetch_method = str ''POST'',
       fetch_headers = [(str ''Content-Type'', str ''application/json'')],
       fetch_body =
         JObj [(str ''contents'',
           JArr [JObj [(str ''parts'', JArr [JObj [(str ''text'', JStr summaryPrompt)]])]])] \<rparr>"

text \<open>The prompt text inside a request body of that shape.\<close>

definition promptOfRequest :: "fetch_request \<Rightarrow> jsval" where
  "promptOfRequest r =
     getProp (getIndex0 (getProp (getIndex0 (getProp (fetch_body r) (str ''contents'')))
       (str ''parts''))) (str ''text'')"

text \<open>
  \<open>data.candidates?.[0]?.content?.parts?.[0]?.text || ''\<close>: the first access is not
  optional and throws on \<open>null\<close>.
\<close>

definition generatedTextOf :: "jsval \<Rightarrow> exn + jsval" where
  "generatedTextOf data =
     (if data = JNull
      then Inl (TypeError (str ''Cannot read properties of null (reading 'candidates')''))
      else if data = JUndefined
      then Inl (TypeError (str ''Cannot read properties of undefined (reading 'candidates')''))
      else
        let candidates = getProp data (str ''candidates'');
            candidate = optChain candidates getIndex0;
            content = optChain candidate (\<lambda>v. getProp v (str ''content''));
            parts = optChain content (\<lambda>v. getProp v (str ''parts''));
            part = optChain parts getIndex0;
            text = optChain part (\<lambda>v. getProp v (str ''text''))
        in Inr (if truthy text then text else JStr []))"

text \<open>
  The branch for a reply that is not \<open>ok\<close> (source lines 133 to 145): the body text is
  awaited first, and a rejection of \<open>response.text()\<close> is what the function throws;
  with the text read, the status is classified.
\<close>

definition statusError :: "response \<Rightarrow> exn" where
  "statusError response =
     (case body_text response of
        Inl e \<Rightarrow> e
      | Inr errorText \<Rightarrow>
          if status response = 401
          then Error (str ''Invalid API key - please check GEMINI_API_KEY configuration'')
          else if status response = 403
          then Error (str ''API access forbidden - please check API key permissions'')
          else if status response = 429
          then Error (str ''API rate limit exceeded - please try again later'')
          else Error (str ''Gemini API error: '' @ numberToString (status response)
                      @ str '' - '' @ errorText))"

text \<open>Parsing and validating the generated text (source lines 160 to 178).\<close>

definition parseSummary :: "jsstring \<Rightarrow> exn + jsstring" where
  "parseSummary generatedText =
     (let summary' =
        (case summaryMatch generatedText of
           Some group1 \<Rightarrow> trim group1
         | None \<Rightarrow> str ''AI-generated summary not available'')
      in if summary' = [] \<or> length summary' < 20
         then Inl (Error (str ''Generated summary is too short or invalid''))
         else Inr summary')"

text \<open>
  From the reply to the result (source lines 132 to 178). A generated text that is not
  a string has no \<open>match\<close> method, and the call throws.
\<close>

definition summaryOfResponse :: "response \<Rightarrow> exn + jsstring" where
  "summaryOfResponse response =
     (if \<not> ok response then Inl (statusError response)
      else case body_json response of
        Inl e \<Rightarrow> Inl e
      | Inr data \<Rightarrow>
          (case generatedTextOf data of
             Inl e \<Rightarrow> Inl e
           | Inr generatedText \<Rightarrow>
               if \<not> truthy generatedText
               then Inl (Error (str ''Empty response from AI service''))
               else (case generatedText of
                       JStr g \<Rightarrow> parseSummary g
                     | _ \<Rightarrow> Inl (TypeError (str ''generatedText.match is not a function'')))))"

text \<open>
  \<open>generateSummary\<close>: the result, or the exception it throws, and the outbound calls
  made. The \<open>catch\<close> of the source logs and throws the same exception again, so the
  outcome of the \<open>try\<close> block is the outcome of the function.
\<close>

definition generateSummary :: "environment \<Rightarrow> jsstring \<Rightarrow> (exn + jsstring) \<times> effect list" where
  "generateSummary env text =
     (if text = [] \<or> length (trim text) = 0
      then (Inl (Error (str ''No transcript text provided'')), [])
      else
        let truncatedText =
              (if length text > maxTranscriptLength
               then substring0 text maxTranscriptLength else text);
            summaryPrompt = summaryPromptOf truncatedText;
            request = fetchRequestOf env summaryPrompt
        in ((case fetch env request of
               Inl e \<Rightarrow> Inl e
             | Inr response \<Rightarrow> summaryOfResponse response),
            [Fetch request]))"

section \<open>The retry generator\<close>

text \<open>The \<open>try\<close> block of \<open>generateSummaryRetry\<close> (source lines 187 to 222).\<close>

definition retryAttempt :: "environment \<Rightarrow> jsstring \<Rightarrow> (exn + jsstring) \<times> effect list" where
  "retryAttempt env text =
     (let summaryPrompt = summaryPromptOf text;
          request = fetchRequestOf env summaryPrompt
      in ((case fetch env request of
             Inl e \<Rightarrow> Inl e
           | Inr response \<Rightarrow>
               if \<not> ok response
               then (case body_text response of
                       Inl e \<Rightarrow> Inl e
                     | Inr errorText \<Rightarrow>
                         Inl (Error (str ''Gemini API retry error: ''
                                     @ numberToString (status response))))
               else (case body_json response of
                  Inl e \<Rightarrow> Inl e
                | Inr data \<Rightarrow>
                    (case generatedTextOf data of
                       Inl e \<Rightarrow> Inl e
                     | Inr generatedText \<Rightarrow>
                         (case generatedText of
                            JStr g \<Rightarrow>
                              let summary' =
                                (case summaryMatch g of
                                   Some group1 \<Rightarrow> trim group1
                                 | None \<Rightarrow> str ''AI summary generation failed after retry'')
                              in if summary' = [] \<or> length summary' < 20
                                 then Inr (str ''AI summary generation failed after retry - please regenerate manually.'')
                                 else Inr summary'
                          | _ \<Rightarrow> Inl (TypeError (str ''generatedText.match is not a function'')))))),
          [Fetch request]))"

text \<open>The \<open>catch\<close> turns every exception of the block into a returned string.\<close>

definition generateSummaryRetry :: "environment \<Rightarrow> jsstring \<Rightarrow> (exn + jsstring) \<times> effect list" where
  "generateSummaryRetry env text =
     (case retryAttempt env text of
        (Inl error, effects) \<Rightarrow> (Inr (str ''AI summary generation failed after retry''), effects)
      | (Inr summary', effects) \<Rightarrow> (Inr summary', effects))"

section \<open>The request handler\<close>

text \<open>\<open>res.status(code).json(payload)\<close>.\<close>

record reply =
  statusCode :: nat
  payload :: "(jsstring \<times> jsval) list"

definition respond :: "nat \<Rightarrow> (jsstring \<times> jsval) list \<Rightarrow> reply" where
  "respond code obj = \<lparr> statusCode = code, payload = obj \<rparr>"

definition errorReply :: "nat \<Rightarrow> string \<Rightarrow> reply" where
  "errorReply code msg = respond code [(str ''error'', JStr (str msg))]"

text \<open>The inner \<open>try\<close> and its \<open>catch\<close> (source lines 56 to 88).\<close>

definition failedToRegenerate :: "exn \<Rightarrow> reply" where
  "failedToRegenerate err =
     respond 500 [(str ''error'', JStr (str ''Failed to regenerate summary'')),
                  (str ''details'', JStr (message err))]"

definition regenerate :: "environment \<Rightarrow> stored_file \<Rightarrow> jsstring \<Rightarrow> reply \<times> effect list" where
  "regenerate env file text =
     (case generateSummary env text of
        (Inl err, effects) \<Rightarrow> (failedToRegenerate err, effects)
      | (Inr newSummary, effects) \<Rightarrow>
          if newSummary = [] \<or> includes_str newSummary (str ''failed'')
          then (errorReply 500 ''AI summary generation failed. Please try again.'', effects)
          else
            let patch = [(str ''summary'', JStr newSummary),
                         (str ''topic'', JStr (case topic file of
                                                None \<Rightarrow> str ''General''
                                              | Some t \<Rightarrow> if t = [] then str ''General'' else t))];
                effects' = effects @ [FilesUpdate (file_id file) patch]
            in (case filesDB_update env (file_id file) patch of
                  Inl err \<Rightarrow> (failedToRegenerate err, effects')
                | Inr None \<Rightarrow> (errorReply 500 ''Failed to save updated summary'', effects')
                | Inr (Some updatedFile) \<Rightarrow>
                    (respond 200 [(str ''success'', JBool True),
                                  (str ''message'', JStr (str ''Summary regenerated successfully'')),
                                  (str ''summary'', JStr newSummary)],
                     effects')))"

text \<open>
  The handler. An exception thrown before the inner \<open>try\<close> reaches the outer
  \<open>catch\<close>, which answers 500 \<open>Internal server error\<close>.
\<close>

definition internalServerError :: "reply \<times> effect list" where
  "internalServerError = (errorReply 500 ''Internal server error'', [])"

definition handler :: "environment \<Rightarrow> request \<Rightarrow> reply \<times> effect list" where
  "handler env req =
     (if req_method req \<noteq> str ''POST'' then (errorReply 405 ''Method not allowed'', [])
      else case getTokenFromRequest env req of
        Inl e \<Rightarrow> internalServerError
      | Inr token \<Rightarrow>
      (case verifyToken env token of
        Inl e \<Rightarrow> internalServerError
      | Inr None \<Rightarrow> (errorReply 401 ''Unauthorized'', [])
      | Inr (Some decoded) \<Rightarrow>
      (case usersDB_findByEmail env (email decoded) of
        Inl e \<Rightarrow> internalServerError
      | Inr None \<Rightarrow> (errorReply 401 ''User not found'', [])
      | Inr (Some user) \<Rightarrow>
          let userId' = user_id user in
          if body req = JUndefined \<or> body req = JNull then internalServerError
          else
            let fileId = getProp (body req) (str ''fileId'') in
            if \<not> truthy fileId then (errorReply 400 ''File ID is required'', [])
            else
      (case filesDB_findById env fileId of
        Inl e \<Rightarrow> internalServerError
      | Inr None \<Rightarrow> (errorReply 404 ''File not found'', [])
      | Inr (Some file) \<Rightarrow>
          if userId file \<noteq> userId' then (errorReply 403 ''Not authorized to update this file'', [])
          else
      (case transcript file of
        None \<Rightarrow> (errorReply 400 ''File has no transcript to summarize'', [])
      | Some text \<Rightarrow>
          if text = [] then (errorReply 400 ''File has no transcript to summarize'', [])
          else
      (case GEMINI_API_KEY env of
        None \<Rightarrow> (errorReply 500 ''AI service not configured. Please set up GEMINI_API_KEY.'', [])
      | Some key \<Rightarrow>
          if key = []
          then (errorReply 500 ''AI service not configured. Please set up GEMINI_API_KEY.'', [])
          else regenerate env file text))))))"

section \<open>Concrete collaborators\<close>

text \<open>
  Concrete replies, records and environments, on which the theorems below are run.
  \<open>upstreamReply g\<close> is a successful reply whose first candidate carries the generated
  text \<open>g\<close>; \<open>upstreamFailure code errorText\<close> is a reply that is not \<open>ok\<close>, with the
  body \<open>errorText\<close>.
\<close>

definition replyData :: "jsstring \<Rightarrow> jsval" where
  "replyData g =
     JObj [(str ''candidates'',
       JArr [JObj [(str ''content'',
         JObj [(str ''parts'', JArr [JObj [(str ''text'', JStr g)]])])]])]"

definition upstreamReply :: "jsstring \<Rightarrow> response" where
  "upstreamReply g =
     \<lparr> ok = True, status = 200, statusText = str ''OK'', body_text = Inr [],
       body_json = Inr (replyData g) \<rparr>"

definition upstreamFailure :: "nat \<Rightarrow> jsstring \<Rightarrow> response" where
  "upstreamFailure code errorText =
     \<lparr> ok = False, status = code, statusText = [], body_text = Inr errorText,
       body_json = Inl (Error (str ''Unexpected token'')) \<rparr>"

text \<open>A reply that is not \<open>ok\<close> and whose body cannot be read: the connection ends first.\<close>

definition unreadableFailure :: "nat \<Rightarrow> response" where
  "unreadableFailure code =
     \<lparr> ok = False, status = code, statusText = [],
       body_text = Inl (TypeError (str ''terminated'')),
       body_json = Inl (TypeError (str ''terminated'')) \<rparr>"

text \<open>The same environment with an endpoint that cannot be reached: \<open>fetch\<close> rejects.\<close>

definition unreachable :: "environment \<Rightarrow> environment" where
  "unreachable env = env \<lparr> fetch := (\<lambda>request. Inl (TypeError (str ''fetch failed''))) \<rparr>"

definition exampleFile :: "jsstring \<Rightarrow> jsstring option \<Rightarrow> stored_file" where
  "exampleFile owner t =
     \<lparr> file_id = str ''f1'', userId = owner, transcript = t,
       summary = Some (str ''old summary''), topic = None \<rparr>"

definition exampleRequest :: "string \<Rightarrow> request" where
  "exampleRequest m =
     \<lparr> req_method = str m,
       headers = [(str ''authorization'', str ''Bearer t0'')],
       body = JObj [(str ''fileId'', JStr (str ''f1''))] \<rparr>"

text \<open>
  An environment with the key set, in which the token of every request verifies and
  resolves to the user \<open>u1\<close>, every file id resolves to the given file, every update
  succeeds, and the upstream endpoint answers every request with the given reply.
\<close>

definition exampleEnv :: "stored_file \<Rightarrow> response \<Rightarrow> environment" where
  "exampleEnv f r =
     \<lparr> GEMINI_API_KEY = Some (str ''k0''),
       fetch = (\<lambda>request. Inr r),
       getTokenFromRequest = (\<lambda>req. Inr (Some (str ''t0''))),
       verifyToken = (\<lambda>token. Inr (Some \<lparr> email = str ''a@b.c'' \<rparr>)),
       usersDB_findByEmail = (\<lambda>e. Inr (Some \<lparr> user_id = str ''u1'' \<rparr>)),
       filesDB_findById = (\<lambda>fileId. Inr (Some f)),
       filesDB_update = (\<lambda>i patch. Inr (Some f)) \<rparr>"

section \<open>Facts about the string operations and the pattern\<close>

lemma matchHere_startsWith: "matchHere s = Some g \<Longrightarrow> startsWith s (str ''SUMMARY:'')"
  by (simp add: matchHere_def split: if_splits)

lemma summaryMatch_includes:
  "summaryMatch g = Some c \<Longrightarrow> includes_str g (str ''SUMMARY:'')"
proof (induction g)
  case Nil
  then show ?case by (simp add: matchHere_def startsWith_def str_def)
next
  case (Cons a g)
  then show ?case by (auto split: option.splits dest: matchHere_startsWith)
qed

lemma summaryMatch_without_marker:
  "\<not> includes_str g (str ''SUMMARY:'') \<Longrightarrow> summaryMatch g = None"
  using summaryMatch_includes by (cases "summaryMatch g") auto

text \<open>
  When the pattern matches: the marker occurs with at least one code unit after it.
\<close>

lemma lazyGroup_Some: "r \<noteq> [] \<Longrightarrow> \<exists>g. lazyGroup r = Some g"
proof (induction r)
  case Nil
  then show ?case by simp
next
  case (Cons c cs)
  show ?case
  proof (cases "lookahead cs")
    case True
    then show ?thesis by simp
  next
    case False
    then have "cs \<noteq> []" by (auto simp: lookahead_def)
    with Cons.IH obtain g where "lazyGroup cs = Some g" by blast
    with False show ?thesis by simp
  qed
qed

lemma afterMarker_Some: "r \<noteq> [] \<Longrightarrow> \<exists>g. afterMarker r = Some g"
  using lazyGroup_Some [of r] by (cases r) (auto split: option.splits)

lemma matchHere_None_iff:
  "matchHere s = None \<longleftrightarrow> \<not> (\<exists>rest. s = str ''SUMMARY:'' @ rest \<and> rest \<noteq> [])"
proof (cases "startsWith s (str ''SUMMARY:'')")
  case True
  then have s: "s = str ''SUMMARY:'' @ drop (length (str ''SUMMARY:'')) s"
    unfolding startsWith_def by (metis append_take_drop_id)
  show ?thesis
  proof (cases "drop (length (str ''SUMMARY:'')) s = []")
    case e: True
    have "matchHere s = None" using True e by (simp add: matchHere_def)
    moreover have "\<not> (\<exists>rest. s = str ''SUMMARY:'' @ rest \<and> rest \<noteq> [])"
      using e by auto
    ultimately show ?thesis by simp
  next
    case ne: False
    from afterMarker_Some [OF ne] have "matchHere s \<noteq> None"
      using True by (auto simp: matchHere_def)
    moreover have "\<exists>rest. s = str ''SUMMARY:'' @ rest \<and> rest \<noteq> []"
      using s ne by blast
    ultimately show ?thesis by simp
  qed
next
  case False
  then have "\<not> (\<exists>rest. s = str ''SUMMARY:'' @ rest)"
    by (auto simp: startsWith_def)
  then show ?thesis using False by (auto simp: matchHere_def)
qed

lemma summaryMatch_None_iff:
  "summaryMatch g = None \<longleftrightarrow>
     (\<forall>before rest. g = before @ str ''SUMMARY:'' @ rest \<longrightarrow> rest = [])"
proof (induction g)
  case Nil
  then show ?case by (simp add: matchHere_None_iff)
next
  case (Cons c cs)
  have split: "(\<forall>before rest. c # cs = before @ str ''SUMMARY:'' @ rest \<longrightarrow> rest = []) \<longleftrightarrow>
     (\<forall>rest. c # cs = str ''SUMMARY:'' @ rest \<longrightarrow> rest = []) \<and>
     (\<forall>before rest. cs = before @ str ''SUMMARY:'' @ rest \<longrightarrow> rest = [])"
    (is "?L \<longleftrightarrow> ?A \<and> ?B")
  proof
    assume l: ?L
    have ?A using l [rule_format, of "[]"] by simp
    moreover have ?B
    proof (intro allI impI)
      fix before rest assume "cs = before @ str ''SUMMARY:'' @ rest"
      then have "c # cs = (c # before) @ str ''SUMMARY:'' @ rest" by simp
      with l show "rest = []" by blast
    qed
    ultimately show "?A \<and> ?B" ..
  next
    assume ab: "?A \<and> ?B"
    show ?L
    proof (intro allI impI)
      fix before rest assume e: "c # cs = before @ str ''SUMMARY:'' @ rest"
      show "rest = []"
      proof (cases before)
        case Nil
        with e ab show ?thesis by simp
      next
        case (Cons b bs)
        with e have "cs = bs @ str ''SUMMARY:'' @ rest" by simp
        with ab show ?thesis by blast
      qed
    qed
  qed
  show ?case
    unfolding split using Cons.IH matchHere_None_iff [of "c # cs"]
    by (auto split: option.splits)
qed

text \<open>
  The decimal rendering has digits only, and read as a decimal numeral it is the number.
\<close>

lemma digit_unat: "k < 10 \<Longrightarrow> unat (of_nat (48 + k) :: 16 word) = 48 + k"
  by (simp add: unat_of_nat del: of_nat_add)

lemma digit_range: "k < 10 \<Longrightarrow> 48 \<le> (of_nat (48 + k) :: 16 word) \<and> (of_nat (48 + k) :: 16 word) \<le> 57"
  by (simp add: word_le_nat_alt digit_unat del: of_nat_add)

lemma numberToString_digits: "list_all (\<lambda>d. 48 \<le> d \<and> d \<le> 57) (numberToString n)"
proof (induction n rule: numberToString.induct)
  case (1 n)
  show ?case
  proof (cases "n < 10")
    case True
    then show ?thesis
      using digit_range [of n] by (subst numberToString.simps) (simp del: of_nat_add)
  next
    case False
    then show ?thesis
      using 1 digit_range [of "n mod 10"]
      by (subst numberToString.simps) (simp del: of_nat_add)
  qed
qed

lemma numberToString_value:
  "foldl (\<lambda>a d. 10 * a + (unat d - 48)) 0 (numberToString n) = n"
proof (induction n rule: numberToString.induct)
  case (1 n)
  show ?case
  proof (cases "n < 10")
    case True
    then show ?thesis
      using digit_unat [of n] by (subst numberToString.simps) (simp del: of_nat_add)
  next
    case False
    then show ?thesis
      using 1 digit_unat [of "n mod 10"]
      by (subst numberToString.simps) (simp del: of_nat_add)
  qed
qed

lemma dropWhile_fix: "xs = [] \<or> \<not> P (hd xs) \<Longrightarrow> dropWhile P xs = xs"
  by (cases xs) auto

lemma last_dropWhile_nonempty: "dropWhile P xs \<noteq> [] \<Longrightarrow> last (dropWhile P xs) = last xs"
  by (metis last_appendR takeWhile_dropWhile_id)

text \<open>Trimming a trimmed string changes nothing.\<close>

lemma trim_trim: "trim (trim s) = trim s"
proof -
  let ?y = "dropWhile isWhiteSpace s"
  let ?z = "dropWhile isWhiteSpace (rev ?y)"
  have "dropWhile isWhiteSpace (rev ?z) = rev ?z"
  proof (cases "?z = []")
    case True
    have "dropWhile isWhiteSpace (rev []) = rev ([] :: jsstring)" by simp
    then show ?thesis by (simp only: True)
  next
    case False
    then have "last ?z = last (rev ?y)" by (rule last_dropWhile_nonempty)
    moreover have y: "?y \<noteq> []"
    proof
      assume e: "?y = []"
      have "?z = []" by (simp only: e rev.simps dropWhile.simps)
      with False show False by contradiction
    qed
    ultimately have "hd (rev ?z) = hd ?y" using False by (simp add: hd_rev last_rev)
    moreover have "\<not> isWhiteSpace (hd ?y)" using y by (rule hd_dropWhile)
    ultimately show ?thesis using False by (intro dropWhile_fix) simp
  qed
  then show ?thesis unfolding trim_def by (simp only: rev_rev_ident dropWhile_idem)
qed

lemma trim_replicate_letter: "trim (replicate n (97 :: 16 word)) = replicate n 97"
  by (simp add: trim_def isWhiteSpace_def dropWhile_replicate)

lemma hello_valid: "str ''hello'' \<noteq> []" "trim (str ''hello'') \<noteq> []"
  by (simp_all add: str_def trim_def isWhiteSpace_def)

section \<open>Facts about the generator\<close>

lemma parseSummary_post: "parseSummary g = Inr s \<Longrightarrow> trim s = s \<and> 20 \<le> length s"
  apply (auto simp add: parseSummary_def Let_def trim_trim split: option.splits if_splits)
  apply (simp_all add: str_def trim_def isWhiteSpace_def)
  done

lemma summaryOfResponse_post: "summaryOfResponse r = Inr s \<Longrightarrow> trim s = s \<and> 20 \<le> length s"
  unfolding summaryOfResponse_def
  by (auto split: if_splits sum.splits jsval.splits dest: parseSummary_post)

lemma generateSummary_post:
  "fst (generateSummary env text) = Inr s \<Longrightarrow> trim s = s \<and> 20 \<le> length s"
  unfolding generateSummary_def
  by (auto simp: Let_def split: if_splits sum.splits dest: summaryOfResponse_post)

lemma generateSummary_invalid:
  assumes "text = [] \<or> trim text = []"
  shows "generateSummary env text = (Inl (Error (str ''No transcript text provided'')), [])"
  using assms by (auto simp: generateSummary_def)

lemma generateSummary_valid:
  assumes "text \<noteq> []" and "trim text \<noteq> []"
  shows "generateSummary env text =
     (let request = fetchRequestOf env (summaryPromptOf
             (if length text > maxTranscriptLength then take maxTranscriptLength text else text))
      in ((case fetch env request of Inl e \<Rightarrow> Inl e | Inr response \<Rightarrow> summaryOfResponse response),
          [Fetch request]))"
  using assms by (simp add: generateSummary_def Let_def substring0_def)

lemma generateSummary_reads:
  assumes "text \<noteq> []" and "trim text \<noteq> []"
    and "\<And>request. fetch env request = Inr response"
  shows "fst (generateSummary env text) = summaryOfResponse response"
  using assms by (simp add: generateSummary_valid Let_def)

lemma promptOfRequest_fetchRequestOf:
  "promptOfRequest (fetchRequestOf env p) = JStr p"
  by (simp add: promptOfRequest_def fetchRequestOf_def str_def)

lemma generatedText_example: "generatedTextOf (replyData g) = Inr (JStr g)"
  by (simp add: generatedTextOf_def replyData_def optChain_def str_def)

lemma exampleEnv_fetch: "fetch (exampleEnv f r) request = Inr r"
  by (simp add: exampleEnv_def)

lemma upstreamReply_json: "body_json (upstreamReply g) = Inr (replyData g)"
  by (simp add: upstreamReply_def)

lemma upstreamReply_ok: "ok (upstreamReply g)"
  by (simp add: upstreamReply_def)

section \<open>The claims about the generator\<close>

text \<open>
  C1, as the specification states it: when the generated text has no \<open>SUMMARY:\<close> marker,
  \<open>generateSummary\<close> throws. The code does not: the pattern does not match, the variable
  \<open>summary\<close> keeps its initial value \<open>AI-generated summary not available\<close>, which has 34
  characters and passes the length check, and that placeholder is returned. Here the
  generated text is \<open>The model declined to answer.\<close>
\<close>

theorem generateSummary_without_marker_counterexample:
  "\<not> includes_str (str ''The model declined to answer.'') (str ''SUMMARY:'') \<and>
   fst (generateSummary
          (exampleEnv (exampleFile [] None) (upstreamReply (str ''The model declined to answer.'')))
          (str ''hello'')) = Inr (str ''AI-generated summary not available'')"
  by (simp add: generateSummary_valid hello_valid exampleEnv_def upstreamReply_def
        summaryOfResponse_def generatedText_example parseSummary_def)
     (simp add: str_def startsWith_def matchHere_def)

text \<open>
  C1, amended: for a transcript that is not blank and a successful upstream reply whose
  generated text is a string without the \<open>SUMMARY:\<close> marker, \<open>generateSummary\<close> returns
  the placeholder \<open>AI-generated summary not available\<close> when the generated text is not
  empty, and throws \<open>Empty response from AI service\<close> when it is empty.
\<close>

theorem generateSummary_without_marker:
  assumes "text \<noteq> []" and "trim text \<noteq> []"
    and "\<And>request. fetch env request = Inr response"
    and "ok response"
    and "body_json response = Inr data"
    and "generatedTextOf data = Inr (JStr g)"
    and "\<not> includes_str g (str ''SUMMARY:'')"
  shows "fst (generateSummary env text) =
           (if g = [] then Inl (Error (str ''Empty response from AI service''))
            else Inr (str ''AI-generated summary not available''))"
proof -
  have "summaryMatch g = None" using assms(7) by (rule summaryMatch_without_marker)
  then have "parseSummary g = Inr (str ''AI-generated summary not available'')"
    by (simp add: parseSummary_def) (simp add: str_def)
  then show ?thesis
    using assms by (simp add: generateSummary_reads summaryOfResponse_def)
qed

text \<open>The amended C1 on the generated text \<open>Sorry, no.\<close>\<close>

theorem generateSummary_without_marker_witness:
  "str ''hello'' \<noteq> [] \<and> trim (str ''hello'') \<noteq> [] \<and>
   ok (upstreamReply (str ''Sorry, no.'')) \<and>
   \<not> includes_str (str ''Sorry, no.'') (str ''SUMMARY:'') \<and>
   fst (generateSummary (exampleEnv (exampleFile [] None) (upstreamReply (str ''Sorry, no.'')))
          (str ''hello'')) = Inr (str ''AI-generated summary not available'')"
proof -
  have h7: "\<not> includes_str (str ''Sorry, no.'') (str ''SUMMARY:'')"
    by (simp add: str_def startsWith_def)
  have ne: "str ''Sorry, no.'' \<noteq> []" by (simp add: str_def)
  have h3: "\<And>request. fetch (exampleEnv (exampleFile [] None)
               (upstreamReply (str ''Sorry, no.''))) request = Inr (upstreamReply (str ''Sorry, no.''))"
    by (rule exampleEnv_fetch)
  from generateSummary_without_marker [OF hello_valid h3 upstreamReply_ok
      upstreamReply_json generatedText_example h7]
  show ?thesis using h7 ne hello_valid upstreamReply_ok by simp
qed

text \<open>
  C3: for a transcript that passes the input check, \<open>generateSummary\<close> makes one
  outbound call, and the prompt in its body is the fixed head of the template, the
  embedded text and the fixed tail. For a transcript longer than 32000 code units the
  embedded text is its first 32000 code units, and nothing of the transcript after
  them; a transcript of at most 32000 code units is embedded unchanged.
\<close>

theorem generateSummary_prompt_keeps_prefix:
  assumes "text \<noteq> []" and "trim text \<noteq> []"
  shows "\<exists>request embedded.
           snd (generateSummary env text) = [Fetch request] \<and>
           promptOfRequest request = JStr (promptHead @ embedded @ promptTail) \<and>
           (32000 < length text \<longrightarrow> embedded = take 32000 text \<and> length embedded = 32000) \<and>
           (length text \<le> 32000 \<longrightarrow> embedded = text)"
proof (cases "32000 < length text")
  case True
  then show ?thesis
    using assms
    by (simp add: generateSummary_valid Let_def maxTranscriptLength_def
          promptOfRequest_fetchRequestOf summaryPromptOf_def)
next
  case False
  then show ?thesis
    using assms
    by (simp add: generateSummary_valid Let_def maxTranscriptLength_def
          promptOfRequest_fetchRequestOf summaryPromptOf_def)
qed

text \<open>C3 on a transcript of 32005 letters \<open>a\<close>: 32000 of them are embedded.\<close>

theorem generateSummary_prompt_keeps_prefix_witness:
  "replicate 32005 (97 :: 16 word) \<noteq> [] \<and> trim (replicate 32005 (97 :: 16 word)) \<noteq> [] \<and>
   (\<exists>request embedded.
      snd (generateSummary (exampleEnv (exampleFile [] None) (upstreamReply []))
             (replicate 32005 97)) = [Fetch request] \<and>
      promptOfRequest request = JStr (promptHead @ embedded @ promptTail) \<and>
      embedded = replicate 32000 97)"
proof -
  have h1: "replicate 32005 (97 :: 16 word) \<noteq> []" by simp
  have h2: "trim (replicate 32005 (97 :: 16 word)) \<noteq> []"
    by (simp add: trim_replicate_letter)
  from generateSummary_prompt_keeps_prefix [OF h1 h2,
      of "exampleEnv (exampleFile [] None) (upstreamReply [])"]
  show ?thesis using h1 h2 by (auto simp: take_replicate)
qed

text \<open>
  C5, as the specification states it: every reply that is not \<open>ok\<close> ends in the message
  of its status category. The code awaits \<open>response.text()\<close> before it looks at the
  status; when the body cannot be read, that rejection is what \<open>generateSummary\<close>
  throws, here for a reply with status 401.
\<close>

theorem generateSummary_unreadable_body_counterexample:
  "\<not> ok (unreadableFailure 401) \<and> status (unreadableFailure 401) = 401 \<and>
   fst (generateSummary (exampleEnv (exampleFile [] None) (unreadableFailure 401))
          (str ''hello'')) = Inl (TypeError (str ''terminated''))"
  by (simp add: generateSummary_reads hello_valid exampleEnv_fetch summaryOfResponse_def
        statusError_def unreadableFailure_def)

text \<open>
  C5, amended: when the upstream reply is not \<open>ok\<close> and \<open>response.text()\<close> rejects,
  \<open>generateSummary\<close> throws that rejection; when the body text can be read,
  \<open>generateSummary\<close> throws an error whose message is the invalid-key message for
  status 401, the access-forbidden message for 403, the rate-limit message for 429, and
  for every other status the generic message, made of \<open>Gemini API error: \<close>, the
  status code in decimal digits, \<open> - \<close> and the body text. The four messages are
  pairwise distinct.
\<close>

theorem generateSummary_status_messages:
  assumes "text \<noteq> []" and "trim text \<noteq> []"
    and "\<And>request. fetch env request = Inr response"
    and "\<not> ok response"
  shows "(body_text response = Inl e \<longrightarrow> fst (generateSummary env text) = Inl e) \<and>
   (body_text response = Inr errorText \<longrightarrow>
    (\<exists>msg. fst (generateSummary env text) = Inl (Error msg) \<and>
     (status response = 401 \<longrightarrow>
        msg = str ''Invalid API key - please check GEMINI_API_KEY configuration'') \<and>
     (status response = 403 \<longrightarrow>
        msg = str ''API access forbidden - please check API key permissions'') \<and>
     (status response = 429 \<longrightarrow>
        msg = str ''API rate limit exceeded - please try again later'') \<and>
     (status response \<notin> {401, 403, 429} \<longrightarrow>
        (\<exists>code. msg = str ''Gemini API error: '' @ code @ str '' - '' @ errorText \<and>
                list_all (\<lambda>d. 48 \<le> d \<and> d \<le> 57) code \<and>
                foldl (\<lambda>a d. 10 * a + (unat d - 48)) 0 code = status response)) \<and>
     distinct [str ''Invalid API key - please check GEMINI_API_KEY configuration'',
               str ''API access forbidden - please check API key permissions'',
               str ''API rate limit exceeded - please try again later'',
               str ''Gemini API error: '' @ numberToString (status response)
                 @ str '' - '' @ errorText]))"
proof -
  have run: "fst (generateSummary env text) = Inl (statusError response)"
    using assms(1-4) by (simp add: generateSummary_reads summaryOfResponse_def)
  have d: "distinct [str ''Invalid API key - please check GEMINI_API_KEY configuration'',
               str ''API access forbidden - please check API key permissions'',
               str ''API rate limit exceeded - please try again later'',
               str ''Gemini API error: '' @ numberToString (status response)
                 @ str '' - '' @ errorText]"
    by (simp add: str_def)
  have c: "\<exists>code. str ''Gemini API error: '' @ numberToString (status response)
                      @ str '' - '' @ errorText
                    = str ''Gemini API error: '' @ code @ str '' - '' @ errorText \<and>
                list_all (\<lambda>d. 48 \<le> d \<and> d \<le> 57) code \<and>
                foldl (\<lambda>a d. 10 * a + (unat d - 48)) 0 code = status response"
    using numberToString_digits numberToString_value by blast
  have unreadable: "fst (generateSummary env text) = Inl e" if "body_text response = Inl e"
    unfolding run statusError_def by (simp add: that)
  have readable: "\<exists>msg. fst (generateSummary env text) = Inl (Error msg) \<and>
     (status response = 401 \<longrightarrow>
        msg = str ''Invalid API key - please check GEMINI_API_KEY configuration'') \<and>
     (status response = 403 \<longrightarrow>
        msg = str ''API access forbidden - please check API key permissions'') \<and>
     (status response = 429 \<longrightarrow>
        msg = str ''API rate limit exceeded - please try again later'') \<and>
     (status response \<notin> {401, 403, 429} \<longrightarrow>
        (\<exists>code. msg = str ''Gemini API error: '' @ code @ str '' - '' @ errorText \<and>
                list_all (\<lambda>d. 48 \<le> d \<and> d \<le> 57) code \<and>
                foldl (\<lambda>a d. 10 * a + (unat d - 48)) 0 code = status response)) \<and>
     distinct [str ''Invalid API key - please check GEMINI_API_KEY configuration'',
               str ''API access forbidden - please check API key permissions'',
               str ''API rate limit exceeded - please try again later'',
               str ''Gemini API error: '' @ numberToString (status response)
                 @ str '' - '' @ errorText]"
    if "body_text response = Inr errorText"
    unfolding run statusError_def that using d c by auto
  show ?thesis using unreadable readable by (intro conjI impI)
qed

text \<open>
  The amended C5 on replies with the statuses 503, 404, 401, 403 and 429, and on a
  reply with status 403 whose body cannot be read.
\<close>

theorem generateSummary_status_messages_witness:
  "\<not> ok (upstreamFailure 503 (str ''busy'')) \<and>
   fst (generateSummary (exampleEnv (exampleFile [] None) (upstreamFailure 503 (str ''busy'')))
          (str ''hello'')) = Inl (Error (str ''Gemini API error: 503 - busy'')) \<and>
   fst (generateSummary (exampleEnv (exampleFile [] None) (upstreamFailure 404 (str ''no model'')))
          (str ''hello'')) = Inl (Error (str ''Gemini API error: 404 - no model'')) \<and>
   fst (generateSummary (exampleEnv (exampleFile [] None) (upstreamFailure 401 (str ''x'')))
          (str ''hello''))
     = Inl (Error (str ''Invalid API key - please check GEMINI_API_KEY configuration'')) \<and>
   fst (generateSummary (exampleEnv (exampleFile [] None) (upstreamFailure 403 (str ''x'')))
          (str ''hello''))
     = Inl (Error (str ''API access forbidden - please check API key permissions'')) \<and>
   fst (generateSummary (exampleEnv (exampleFile [] None) (upstreamFailure 429 (str ''x'')))
          (str ''hello''))
     = Inl (Error (str ''API rate limit exceeded - please try again later'')) \<and>
   fst (generateSummary (exampleEnv (exampleFile [] None) (unreadableFailure 403))
          (str ''hello''))
     = Inl (TypeError (str ''terminated''))"
proof -
  have nok: "\<And>code t. \<not> ok (upstreamFailure code t)" by (simp add: upstreamFailure_def)
  have bt: "\<And>code t. body_text (upstreamFailure code t) = Inr t" by (simp add: upstreamFailure_def)
  have st: "\<And>code t. status (upstreamFailure code t) = code" by (simp add: upstreamFailure_def)
  have f: "\<And>r request. fetch (exampleEnv (exampleFile [] None) r) request = Inr r"
    by (rule exampleEnv_fetch)
  have n: "numberToString 503 = str ''503''" "numberToString 404 = str ''404''"
    by (simp_all add: numberToString.simps str_def)
  have run: "\<And>r. fst (generateSummary (exampleEnv (exampleFile [] None) r) (str ''hello''))
               = summaryOfResponse r"
    by (simp add: generateSummary_reads hello_valid f)
  have a: "summaryOfResponse (upstreamFailure 503 (str ''busy''))
             = Inl (Error (str ''Gemini API error: 503 - busy''))"
    by (simp add: summaryOfResponse_def nok statusError_def bt st n) (simp add: str_def)
  have b: "summaryOfResponse (upstreamFailure 404 (str ''no model''))
             = Inl (Error (str ''Gemini API error: 404 - no model''))"
    by (simp add: summaryOfResponse_def nok statusError_def bt st n) (simp add: str_def)
  have c: "\<exists>msg. fst (generateSummary (exampleEnv (exampleFile [] None)
                 (upstreamFailure 401 (str ''x''))) (str ''hello'')) = Inl (Error msg) \<and>
             msg = str ''Invalid API key - please check GEMINI_API_KEY configuration''"
    using generateSummary_status_messages [OF hello_valid
        f [of "upstreamFailure 401 (str ''x'')"] nok, of _ "str ''x''"] bt
    by (auto simp: st)
  have d: "\<exists>msg. fst (generateSummary (exampleEnv (exampleFile [] None)
                 (upstreamFailure 403 (str ''x''))) (str ''hello'')) = Inl (Error msg) \<and>
             msg = str ''API access forbidden - please check API key permissions''"
    using generateSummary_status_messages [OF hello_valid
        f [of "upstreamFailure 403 (str ''x'')"] nok, of _ "str ''x''"] bt
    by (auto simp: st)
  have e: "\<exists>msg. fst (generateSummary (exampleEnv (exampleFile [] None)
                 (upstreamFailure 429 (str ''x''))) (str ''hello'')) = Inl (Error msg) \<and>
             msg = str ''API rate limit exceeded - please try again later''"
    using generateSummary_status_messages [OF hello_valid
        f [of "upstreamFailure 429 (str ''x'')"] nok, of _ "str ''x''"] bt
    by (auto simp: st)
  have u: "fst (generateSummary (exampleEnv (exampleFile [] None) (unreadableFailure 403))
          (str ''hello'')) = Inl (TypeError (str ''terminated''))"
    using generateSummary_status_messages [OF hello_valid
        f [of "unreadableFailure 403"], of "TypeError (str ''terminated'')"]
    by (simp add: unreadableFailure_def)
  show ?thesis using a b c d e u nok by (simp add: run)
qed

text \<open>
  C6, as the specification states it: a reply with the \<open>SUMMARY:\<close> section present and
  less than 20 characters extracted makes \<open>generateSummary\<close> throw. When the marker
  ends the generated text, the section is present and nothing is extracted, since the
  group needs one code unit; the pattern fails, and the code returns the placeholder
  instead of throwing. Here the generated text is \<open>Here is the SUMMARY:\<close>
\<close>

theorem generateSummary_marker_without_text_counterexample:
  "includes_str (str ''Here is the SUMMARY:'') (str ''SUMMARY:'') \<and>
   summaryMatch (str ''Here is the SUMMARY:'') = None \<and>
   fst (generateSummary
          (exampleEnv (exampleFile [] None) (upstreamReply (str ''Here is the SUMMARY:'')))
          (str ''hello'')) = Inr (str ''AI-generated summary not available'')"
  by (simp add: generateSummary_reads hello_valid exampleEnv_fetch upstreamReply_ok
        upstreamReply_json summaryOfResponse_def generatedText_example parseSummary_def)
     (simp add: str_def startsWith_def matchHere_def)

text \<open>
  C6, amended: when the pattern matches the generated text of the upstream reply (the
  marker \<open>SUMMARY:\<close> occurs with at least one code unit after it) and the trimmed text
  of the group is shorter than 20 code units, \<open>generateSummary\<close> throws; for a
  transcript that passes the input check and a reply that is \<open>ok\<close>, the error is
  \<open>Generated summary is too short or invalid\<close>.
\<close>

theorem generateSummary_short_summary_throws:
  assumes "\<And>request. fetch env request = Inr response"
    and "body_json response = Inr data"
    and "generatedTextOf data = Inr (JStr g)"
    and "summaryMatch g = Some group1"
    and "length (trim group1) < 20"
  shows "(\<exists>before rest. g = before @ str ''SUMMARY:'' @ rest \<and> rest \<noteq> []) \<and>
         (\<exists>e. fst (generateSummary env text) = Inl e \<and>
           (text \<noteq> [] \<and> trim text \<noteq> [] \<and> ok response \<longrightarrow>
              e = Error (str ''Generated summary is too short or invalid'')))"
proof -
  have m: "\<exists>before rest. g = before @ str ''SUMMARY:'' @ rest \<and> rest \<noteq> []"
    using assms(4) summaryMatch_None_iff [of g] by auto
  have p: "parseSummary g = Inl (Error (str ''Generated summary is too short or invalid''))"
    using assms(4,5) by (simp add: parseSummary_def)
  have g: "g \<noteq> []" using assms(4) by (auto simp: matchHere_def startsWith_def str_def)
  have r: "ok response \<Longrightarrow> summaryOfResponse response =
             Inl (Error (str ''Generated summary is too short or invalid''))"
    using assms(2,3) p g by (simp add: summaryOfResponse_def)
  have r': "\<not> ok response \<Longrightarrow> summaryOfResponse response = Inl (statusError response)"
    by (simp add: summaryOfResponse_def)
  show ?thesis
  proof (cases "text = [] \<or> trim text = []")
    case True
    then show ?thesis using m by (auto simp: generateSummary_invalid)
  next
    case False
    then have "fst (generateSummary env text) = summaryOfResponse response"
      using assms(1) by (simp add: generateSummary_reads)
    then show ?thesis using r r' m by (cases "ok response") auto
  qed
qed

text \<open>
  The amended C6 on the generated text \<open>SUMMARY: Too short.\<close> followed by a
  \<open>TOPICS:\<close> line.
\<close>

theorem generateSummary_short_summary_throws_witness:
  "summaryMatch (str ''SUMMARY: Too short.\<newline>TOPICS: a'') = Some (str ''Too short.\<newline>'') \<and>
   length (trim (str ''Too short.\<newline>'')) < 20 \<and>
   fst (generateSummary
          (exampleEnv (exampleFile [] None) (upstreamReply (str ''SUMMARY: Too short.\<newline>TOPICS: a'')))
          (str ''hello'')) = Inl (Error (str ''Generated summary is too short or invalid''))"
proof -
  have h4: "summaryMatch (str ''SUMMARY: Too short.\<newline>TOPICS: a'') = Some (str ''Too short.\<newline>'')"
    by (simp add: str_def matchHere_def startsWith_def lookahead_def isWhiteSpace_def)
  have h5: "length (trim (str ''Too short.\<newline>'')) < 20"
    by (simp add: str_def trim_def isWhiteSpace_def)
  have h1: "\<And>request. fetch (exampleEnv (exampleFile [] None)
               (upstreamReply (str ''SUMMARY: Too short.\<newline>TOPICS: a''))) request =
             Inr (upstreamReply (str ''SUMMARY: Too short.\<newline>TOPICS: a''))"
    by (rule exampleEnv_fetch)
  from generateSummary_short_summary_throws [OF h1 upstreamReply_json
      generatedText_example h4 h5, of "str ''hello''"]
  show ?thesis using h4 h5 upstreamReply_ok hello_valid by auto
qed

text \<open>
  C10: every string that \<open>generateSummary\<close> returns is trimmed (trimming it again gives
  the same string) and has at least 20 code units, for every transcript and every
  behaviour of the upstream endpoint.
\<close>

theorem generateSummary_result_trimmed_and_long:
  assumes "fst (generateSummary env text) = Inr s"
  shows "trim s = s \<and> 20 \<le> length s"
  using assms by (rule generateSummary_post)

text \<open>C10 on a reply whose summary section has white space on both sides.\<close>

theorem generateSummary_result_trimmed_and_long_witness:
  "fst (generateSummary
          (exampleEnv (exampleFile [] None)
             (upstreamReply (str ''SUMMARY:  A calm talk about tides and the moon.  \<newline>TOPICS: sea'')))
          (str ''hello'')) = Inr (str ''A calm talk about tides and the moon.'') \<and>
   trim (str ''A calm talk about tides and the moon.'') = str ''A calm talk about tides and the moon.'' \<and>
   20 \<le> length (str ''A calm talk about tides and the moon.'')"
proof -
  have h: "fst (generateSummary
          (exampleEnv (exampleFile [] None)
             (upstreamReply (str ''SUMMARY:  A calm talk about tides and the moon.  \<newline>TOPICS: sea'')))
          (str ''hello'')) = Inr (str ''A calm talk about tides and the moon.'')"
    by (simp add: generateSummary_valid hello_valid exampleEnv_def upstreamReply_def
        summaryOfResponse_def generatedText_example parseSummary_def)
       (simp add: str_def startsWith_def matchHere_def lookahead_def isWhiteSpace_def trim_def)
  from generateSummary_result_trimmed_and_long [OF h] h show ?thesis by simp
qed

section \<open>Facts about the retry generator\<close>

lemma retryAttempt_fst:
  "fst (retryAttempt env text) =
     (case fetch env (fetchRequestOf env (summaryPromptOf text)) of
         Inl e \<Rightarrow> Inl e
       | Inr response \<Rightarrow>
           if \<not> ok response
           then (case body_text response of
                   Inl e \<Rightarrow> Inl e
                 | Inr errorText \<Rightarrow>
                     Inl (Error (str ''Gemini API retry error: ''
                                 @ numberToString (status response))))
           else (case body_json response of
              Inl e \<Rightarrow> Inl e
            | Inr data \<Rightarrow>
                (case generatedTextOf data of
                   Inl e \<Rightarrow> Inl e
                 | Inr generatedText \<Rightarrow>
                     (case generatedText of
                        JStr g \<Rightarrow>
                          (case summaryMatch g of
                             None \<Rightarrow> Inr (str ''AI summary generation failed after retry'')
                           | Some group1 \<Rightarrow>
                               if length (trim group1) < 20
                               then Inr (str ''AI summary generation failed after retry - please regenerate manually.'')
                               else Inr (trim group1))
                      | _ \<Rightarrow> Inl (TypeError (str ''generatedText.match is not a function''))))))"
proof -
  have a: "\<not> length (str ''AI summary generation failed after retry'') < 20"
    "str ''AI summary generation failed after retry'' \<noteq> []"
    by (simp_all add: str_def)
  have b: "\<And>x :: jsstring. (x = [] \<or> length x < 20) = (length x < 20)" by auto
  show ?thesis
    by (simp add: retryAttempt_def Let_def a b
          split: sum.splits jsval.splits option.splits)
qed

lemma generateSummaryRetry_fst:
  "fst (generateSummaryRetry env text) =
     (case fst (retryAttempt env text) of
        Inl error \<Rightarrow> Inr (str ''AI summary generation failed after retry'')
      | Inr s \<Rightarrow> Inr s)"
  by (simp add: generateSummaryRetry_def split: prod.splits sum.splits)

section \<open>The claim about the retry generator\<close>

text \<open>
  C4, as the specification states it: every failure of \<open>generateSummaryRetry\<close> returns
  one single fixed string. The code has two: an upstream reply that is not \<open>ok\<close> (here
  status 500) ends in the \<open>catch\<close>, which returns
  \<open>AI summary generation failed after retry\<close>, and a summary that is too short (here
  \<open>Too short.\<close>) returns the longer
  \<open>AI summary generation failed after retry - please regenerate manually.\<close>
\<close>

theorem generateSummaryRetry_two_sentinels:
  "fst (generateSummaryRetry (exampleEnv (exampleFile [] None) (upstreamFailure 500 []))
          (str ''hello'')) = Inr (str ''AI summary generation failed after retry'') \<and>
   fst (generateSummaryRetry
          (exampleEnv (exampleFile [] None) (upstreamReply (str ''SUMMARY: Too short.'')))
          (str ''hello''))
     = Inr (str ''AI summary generation failed after retry - please regenerate manually.'') \<and>
   str ''AI summary generation failed after retry'' \<noteq>
   str ''AI summary generation failed after retry - please regenerate manually.''"
  by (simp add: generateSummaryRetry_fst retryAttempt_fst exampleEnv_fetch upstreamFailure_def
        upstreamReply_ok upstreamReply_json generatedText_example)
     (simp add: str_def matchHere_def startsWith_def lookahead_def isWhiteSpace_def trim_def)

text \<open>
  C4, amended: \<open>generateSummaryRetry\<close> never throws, and every outcome other than a
  summary of at least 20 code units returns one of two fixed strings. It returns
  \<open>AI summary generation failed after retry\<close> when \<open>fetch\<close> rejects, when the reply
  is not \<open>ok\<close>, when \<open>response.json()\<close> rejects, when reading the generated text throws,
  when the generated text is not a string, and when the pattern does not match (the
  \<open>SUMMARY:\<close> marker is missing, or nothing follows it). It returns
  \<open>AI summary generation failed after retry - please regenerate manually.\<close> when the
  pattern matches and the trimmed text of the group is shorter than 20 code units.
  Otherwise it returns the trimmed text of the group.
\<close>

theorem generateSummaryRetry_failures:
  "\<exists>s. fst (generateSummaryRetry env text) = Inr s \<and>
     (fetch env (fetchRequestOf env (summaryPromptOf text)) = Inl e \<longrightarrow>
        s = str ''AI summary generation failed after retry'') \<and>
     (fetch env (fetchRequestOf env (summaryPromptOf text)) = Inr response \<longrightarrow>
        (\<not> ok response \<longrightarrow> s = str ''AI summary generation failed after retry'') \<and>
        (ok response \<and> body_json response = Inl e' \<longrightarrow>
           s = str ''AI summary generation failed after retry'') \<and>
        (ok response \<and> body_json response = Inr data \<longrightarrow>
           (generatedTextOf data = Inl e'' \<longrightarrow>
              s = str ''AI summary generation failed after retry'') \<and>
           (generatedTextOf data = Inr v \<and> (\<forall>g'. v \<noteq> JStr g') \<longrightarrow>
              s = str ''AI summary generation failed after retry'') \<and>
           (generatedTextOf data = Inr (JStr g) \<longrightarrow>
              (\<not> includes_str g (str ''SUMMARY:'') \<longrightarrow>
                 s = str ''AI summary generation failed after retry'') \<and>
              (summaryMatch g = None \<longrightarrow>
                 s = str ''AI summary generation failed after retry'') \<and>
              (summaryMatch g = Some group1 \<and> length (trim group1) < 20 \<longrightarrow>
                 s = str ''AI summary generation failed after retry - please regenerate manually.'') \<and>
              (summaryMatch g = Some group1 \<and> 20 \<le> length (trim group1) \<longrightarrow>
                 s = trim group1))))"
proof -
  let ?req = "fetchRequestOf env (summaryPromptOf text)"
  define A where "A = str ''AI summary generation failed after retry''"
  define B
    where "B = str ''AI summary generation failed after retry - please regenerate manually.''"
  have never: "\<exists>s. fst (generateSummaryRetry env text) = Inr s"
    by (simp add: generateSummaryRetry_fst split: sum.splits)
  then obtain s where s: "fst (generateSummaryRetry env text) = Inr s" ..
  have 1: "s = A" if "fetch env ?req = Inl e"
  proof -
    have "fst (generateSummaryRetry env text) = Inr A"
      by (simp add: generateSummaryRetry_fst retryAttempt_fst that A_def B_def)
    with s show ?thesis by simp
  qed
  have 2: "s = A" if "fetch env ?req = Inr response" "\<not> ok response"
  proof -
    have "fst (generateSummaryRetry env text) = Inr A"
      by (cases "body_text response") (simp_all add: generateSummaryRetry_fst retryAttempt_fst that A_def)
    with s show ?thesis by simp
  qed
  have 3: "s = A" if "fetch env ?req = Inr response" "ok response" "body_json response = Inl e'"
  proof -
    have "fst (generateSummaryRetry env text) = Inr A"
      by (simp add: generateSummaryRetry_fst retryAttempt_fst that A_def B_def)
    with s show ?thesis by simp
  qed
  have 4: "s = A" if "fetch env ?req = Inr response" "ok response"
      "body_json response = Inr data" "generatedTextOf data = Inl e''"
  proof -
    have "fst (generateSummaryRetry env text) = Inr A"
      by (simp add: generateSummaryRetry_fst retryAttempt_fst that A_def B_def)
    with s show ?thesis by simp
  qed
  have 5: "s = A" if "fetch env ?req = Inr response" "ok response"
      "body_json response = Inr data" "generatedTextOf data = Inr v" "\<forall>g'. v \<noteq> JStr g'"
  proof -
    have "fst (generateSummaryRetry env text) = Inr A"
      using that(5)
      by (cases v) (simp_all add: generateSummaryRetry_fst retryAttempt_fst that(1-4) A_def)
    with s show ?thesis by simp
  qed
  have 6: "s = A" if "fetch env ?req = Inr response" "ok response"
      "body_json response = Inr data" "generatedTextOf data = Inr (JStr g)"
      "summaryMatch g = None"
  proof -
    have "fst (generateSummaryRetry env text) = Inr A"
      by (simp add: generateSummaryRetry_fst retryAttempt_fst that A_def B_def)
    with s show ?thesis by simp
  qed
  have 7: "s = B" if "fetch env ?req = Inr response" "ok response"
      "body_json response = Inr data" "generatedTextOf data = Inr (JStr g)"
      "summaryMatch g = Some group1" "length (trim group1) < 20"
  proof -
    have "fst (generateSummaryRetry env text) = Inr B"
      by (simp add: generateSummaryRetry_fst retryAttempt_fst that A_def B_def)
    with s show ?thesis by simp
  qed
  have 8: "s = trim group1" if "fetch env ?req = Inr response" "ok response"
      "body_json response = Inr data" "generatedTextOf data = Inr (JStr g)"
      "summaryMatch g = Some group1" "20 \<le> length (trim group1)"
  proof -
    have "fst (generateSummaryRetry env text) = Inr (trim group1)"
      using that(6) by (simp add: generateSummaryRetry_fst retryAttempt_fst that(1-5))
    with s show ?thesis by simp
  qed
  have 9: "summaryMatch g = None" if "\<not> includes_str g (str ''SUMMARY:'')"
    using that by (rule summaryMatch_without_marker)
  have "fst (generateSummaryRetry env text) = Inr s \<and>
     (fetch env ?req = Inl e \<longrightarrow> s = A) \<and>
     (fetch env ?req = Inr response \<longrightarrow>
        (\<not> ok response \<longrightarrow> s = A) \<and>
        (ok response \<and> body_json response = Inl e' \<longrightarrow> s = A) \<and>
        (ok response \<and> body_json response = Inr data \<longrightarrow>
           (generatedTextOf data = Inl e'' \<longrightarrow> s = A) \<and>
           (generatedTextOf data = Inr v \<and> (\<forall>g'. v \<noteq> JStr g') \<longrightarrow> s = A) \<and>
           (generatedTextOf data = Inr (JStr g) \<longrightarrow>
              (\<not> includes_str g (str ''SUMMARY:'') \<longrightarrow> s = A) \<and>
              (summaryMatch g = None \<longrightarrow> s = A) \<and>
              (summaryMatch g = Some group1 \<and> length (trim group1) < 20 \<longrightarrow> s = B) \<and>
              (summaryMatch g = Some group1 \<and> 20 \<le> length (trim group1) \<longrightarrow>
                 s = trim group1))))"
    apply (intro conjI impI)
             apply (rule s)
            apply (erule 1)
           apply (erule (1) 2)
          apply (elim conjE, erule (2) 3)
         apply (elim conjE, erule (3) 4)
        apply (elim conjE, rule 5; assumption)
       apply (elim conjE, rule 6; (assumption | (rule 9, assumption)))
      apply (elim conjE, rule 6; assumption)
     apply (elim conjE, rule 7; assumption)
    apply (elim conjE, rule 8; assumption)
    done
  then show ?thesis unfolding A_def B_def by (rule exI)
qed

text \<open>
  The amended C4 on three outcomes: a summary that is too short, a generated text that
  ends with the marker, and an endpoint that cannot be reached.
\<close>

theorem generateSummaryRetry_failures_witness:
  "ok (upstreamReply (str ''SUMMARY: Too short.'')) \<and>
   summaryMatch (str ''SUMMARY: Too short.'') = Some (str ''Too short.'') \<and>
   length (trim (str ''Too short.'')) < 20 \<and>
   fst (generateSummaryRetry
          (exampleEnv (exampleFile [] None) (upstreamReply (str ''SUMMARY: Too short.'')))
          (str ''hello''))
     = Inr (str ''AI summary generation failed after retry - please regenerate manually.'') \<and>
   summaryMatch (str ''Here is the SUMMARY:'') = None \<and>
   fst (generateSummaryRetry
          (exampleEnv (exampleFile [] None) (upstreamReply (str ''Here is the SUMMARY:'')))
          (str ''hello''))
     = Inr (str ''AI summary generation failed after retry'') \<and>
   fst (generateSummaryRetry
          (unreachable (exampleEnv (exampleFile [] None) (upstreamReply [])))
          (str ''hello''))
     = Inr (str ''AI summary generation failed after retry'')"
proof -
  let ?env = "exampleEnv (exampleFile [] None) (upstreamReply (str ''SUMMARY: Too short.''))"
  let ?env2 = "exampleEnv (exampleFile [] None) (upstreamReply (str ''Here is the SUMMARY:''))"
  let ?env3 = "unreachable (exampleEnv (exampleFile [] None) (upstreamReply []))"
  have h4: "summaryMatch (str ''SUMMARY: Too short.'') = Some (str ''Too short.'')"
    by (simp add: str_def matchHere_def startsWith_def lookahead_def isWhiteSpace_def)
  have h5: "length (trim (str ''Too short.'')) < 20"
    by (simp add: str_def trim_def isWhiteSpace_def)
  have h6: "summaryMatch (str ''Here is the SUMMARY:'') = None"
    by (simp add: str_def matchHere_def startsWith_def)
  have h1: "fetch ?env (fetchRequestOf ?env (summaryPromptOf (str ''hello'')))
            = Inr (upstreamReply (str ''SUMMARY: Too short.''))"
    by (rule exampleEnv_fetch)
  have h2: "fetch ?env2 (fetchRequestOf ?env2 (summaryPromptOf (str ''hello'')))
            = Inr (upstreamReply (str ''Here is the SUMMARY:''))"
    by (rule exampleEnv_fetch)
  have h3: "fetch ?env3 (fetchRequestOf ?env3 (summaryPromptOf (str ''hello'')))
            = Inl (TypeError (str ''fetch failed''))"
    by (simp add: unreachable_def)
  have a: "fst (generateSummaryRetry ?env (str ''hello''))
     = Inr (str ''AI summary generation failed after retry - please regenerate manually.'')"
    using generateSummaryRetry_failures [of ?env "str ''hello''" _
      "upstreamReply (str ''SUMMARY: Too short.'')" _ "replyData (str ''SUMMARY: Too short.'')"
      _ _ "str ''SUMMARY: Too short.''" "str ''Too short.''"]
      h1 h4 h5 upstreamReply_ok upstreamReply_json generatedText_example by auto
  have b: "fst (generateSummaryRetry ?env2 (str ''hello''))
     = Inr (str ''AI summary generation failed after retry'')"
    using generateSummaryRetry_failures [of ?env2 "str ''hello''" _
      "upstreamReply (str ''Here is the SUMMARY:'')" _ "replyData (str ''Here is the SUMMARY:'')"
      _ _ "str ''Here is the SUMMARY:''"]
      h2 h6 upstreamReply_ok upstreamReply_json generatedText_example by auto
  have c: "fst (generateSummaryRetry ?env3 (str ''hello''))
     = Inr (str ''AI summary generation failed after retry'')"
    using generateSummaryRetry_failures [of ?env3 "str ''hello''" "TypeError (str ''fetch failed'')"]
      h3 by auto
  show ?thesis using a b c h4 h5 h6 upstreamReply_ok by simp
qed

section \<open>Facts about the handler\<close>

lemma trim_Nil: "trim [] = []"
  by (simp add: trim_def)

lemma generateSummary_effects: "filter isFilesUpdate (snd (generateSummary env text)) = []"
  by (simp add: generateSummary_def Let_def)

lemma handler_at_file:
  assumes "req_method req = str ''POST''"
    and "getTokenFromRequest env req = Inr token"
    and "verifyToken env token = Inr (Some decoded)"
    and "usersDB_findByEmail env (email decoded) = Inr (Some user)"
    and "truthy (getProp (body req) (str ''fileId''))"
    and "filesDB_findById env (getProp (body req) (str ''fileId'')) = Inr (Some file)"
  shows "handler env req =
     (if userId file \<noteq> user_id user
      then (errorReply 403 ''Not authorized to update this file'', [])
      else (case transcript file of
        None \<Rightarrow> (errorReply 400 ''File has no transcript to summarize'', [])
      | Some text \<Rightarrow>
          if text = [] then (errorReply 400 ''File has no transcript to summarize'', [])
          else (case GEMINI_API_KEY env of
            None \<Rightarrow> (errorReply 500 ''AI service not configured. Please set up GEMINI_API_KEY.'', [])
          | Some key \<Rightarrow>
              if key = []
              then (errorReply 500 ''AI service not configured. Please set up GEMINI_API_KEY.'', [])
              else regenerate env file text)))"
proof -
  have b: "body req \<noteq> JUndefined" "body req \<noteq> JNull"
    using assms(5) by auto
  show ?thesis
    using assms b by (simp add: handler_def Let_def)
qed

lemma exampleRequest_method: "req_method (exampleRequest ''POST'') = str ''POST''"
  by (simp add: exampleRequest_def)

lemma exampleEnv_token: "getTokenFromRequest (exampleEnv f r) req = Inr (Some (str ''t0''))"
  by (simp add: exampleEnv_def)

lemma exampleEnv_verify:
  "verifyToken (exampleEnv f r) token = Inr (Some \<lparr> email = str ''a@b.c'' \<rparr>)"
  by (simp add: exampleEnv_def)

lemma exampleEnv_user:
  "usersDB_findByEmail (exampleEnv f r) e = Inr (Some \<lparr> user_id = str ''u1'' \<rparr>)"
  by (simp add: exampleEnv_def)

lemma exampleRequest_fileId: "truthy (getProp (body (exampleRequest m)) (str ''fileId''))"
  by (simp add: exampleRequest_def str_def)

lemma exampleEnv_file: "filesDB_findById (exampleEnv f r) i = Inr (Some f)"
  by (simp add: exampleEnv_def)

lemma exampleEnv_key: "GEMINI_API_KEY (exampleEnv f r) = Some (str ''k0'')" "str ''k0'' \<noteq> []"
  by (simp_all add: exampleEnv_def str_def)

lemma exampleEnv_update: "\<exists>updatedFile. filesDB_update (exampleEnv f r) i patch = Inr (Some updatedFile)"
  by (simp add: exampleEnv_def)

section \<open>The claims about the handler\<close>

text \<open>
  C2, as the specification states it: a non-empty transcript is enough for the answer
  200. The transcript of one space is not empty, so the handler goes on to
  \<open>generateSummary\<close>, which trims it, finds nothing left and throws
  \<open>No transcript text provided\<close>; the handler answers 500, calls neither the upstream
  endpoint nor the file store, with the key set, the owner right and the upstream reply
  of the claim at hand.
\<close>

theorem handler_blank_transcript_counterexample:
  "transcript (exampleFile (str ''u1'') (Some (str '' ''))) = Some (str '' '') \<and>
   str '' '' \<noteq> [] \<and>
   handler
      (exampleEnv (exampleFile (str ''u1'') (Some (str '' '')))
         (upstreamReply (str ''SUMMARY: This is a test summary that is long enough.\<newline>TOPICS: a, b'')))
      (exampleRequest ''POST'')
    = (\<lparr> statusCode = 500,
          payload = [(str ''error'', JStr (str ''Failed to regenerate summary'')),
                     (str ''details'', JStr (str ''No transcript text provided''))] \<rparr>, [])"
proof -
  let ?f = "exampleFile (str ''u1'') (Some (str '' ''))"
  have t: "trim (str '' '') = []" by (simp add: str_def trim_def isWhiteSpace_def)
  have ne: "str '' '' \<noteq> []" by (simp add: str_def)
  have o: "userId ?f = user_id \<lparr> user_id = str ''u1'' \<rparr>"
    by (simp add: exampleFile_def)
  have tr: "transcript ?f = Some (str '' '')"
    by (simp add: exampleFile_def)
  have "handler (exampleEnv ?f
         (upstreamReply (str ''SUMMARY: This is a test summary that is long enough.\<newline>TOPICS: a, b'')))
      (exampleRequest ''POST'') = regenerate (exampleEnv ?f
         (upstreamReply (str ''SUMMARY: This is a test summary that is long enough.\<newline>TOPICS: a, b'')))
         ?f (str '' '')"
    using ne o tr
    by (simp add: handler_at_file [OF exampleRequest_method exampleEnv_token
      exampleEnv_verify exampleEnv_user exampleRequest_fileId exampleEnv_file] exampleEnv_key)
  then show ?thesis
    using t ne tr
    by (simp add: regenerate_def generateSummary_invalid failedToRegenerate_def respond_def)
qed

text \<open>
  C2, amended: for a POST request whose token verifies and resolves to a user, whose
  \<open>fileId\<close> resolves to a file of that user with a transcript that has a code unit other
  than white space, with the key \<open>GEMINI_API_KEY\<close> set, a successful upstream reply
  whose generated text is the one of the claim, and a file store that accepts the
  update: the handler answers 200, the \<open>summary\<close> of the answer is
  \<open>This is a test summary that is long enough.\<close>, and the one datastore write is
  \<open>filesDB.update\<close> on the id of the file, with that summary and the kept or default
  topic.
\<close>

theorem handler_regenerates_summary:
  assumes "req_method req = str ''POST''"
    and "getTokenFromRequest env req = Inr token"
    and "verifyToken env token = Inr (Some decoded)"
    and "usersDB_findByEmail env (email decoded) = Inr (Some user)"
    and "truthy (getProp (body req) (str ''fileId''))"
    and "filesDB_findById env (getProp (body req) (str ''fileId'')) = Inr (Some file)"
    and "userId file = user_id user"
    and "transcript file = Some text" and "trim text \<noteq> []"
    and "GEMINI_API_KEY env = Some key" and "key \<noteq> []"
    and "\<And>request. fetch env request = Inr response"
    and "ok response" and "body_json response = Inr data"
    and "generatedTextOf data =
           Inr (JStr (str ''SUMMARY: This is a test summary that is long enough.\<newline>TOPICS: a, b''))"
    and "\<And>patch. \<exists>updatedFile. filesDB_update env (file_id file) patch = Inr (Some updatedFile)"
  shows "statusCode (fst (handler env req)) = 200 \<and>
         map_of (payload (fst (handler env req))) (str ''summary'') =
           Some (JStr (str ''This is a test summary that is long enough.'')) \<and>
         filter isFilesUpdate (snd (handler env req)) =
           [FilesUpdate (file_id file)
              [(str ''summary'', JStr (str ''This is a test summary that is long enough.'')),
               (str ''topic'', JStr (case topic file of
                                      None \<Rightarrow> str ''General''
                                    | Some t \<Rightarrow> if t = [] then str ''General'' else t))]]"
proof -
  let ?s = "str ''This is a test summary that is long enough.''"
  let ?patch = "[(str ''summary'', JStr ?s),
               (str ''topic'', JStr (case topic file of
                                      None \<Rightarrow> str ''General''
                                    | Some t \<Rightarrow> if t = [] then str ''General'' else t))]"
  have t: "text \<noteq> []" using assms(9) by (auto simp: trim_Nil)
  have h: "handler env req = regenerate env file text"
    using assms(7,8,10,11) t by (simp add: handler_at_file [OF assms(1-6)])
  have p: "parseSummary (str ''SUMMARY: This is a test summary that is long enough.\<newline>TOPICS: a, b'')
             = Inr ?s"
    by (simp add: parseSummary_def)
       (simp add: str_def startsWith_def matchHere_def lookahead_def isWhiteSpace_def trim_def)
  have "fst (generateSummary env text) = Inr ?s"
    using assms(12-15) t assms(9) p
    by (simp add: generateSummary_reads summaryOfResponse_def str_def)
  then obtain effects where g: "generateSummary env text = (Inr ?s, effects)"
    by (cases "generateSummary env text") auto
  have e: "filter isFilesUpdate effects = []"
    using generateSummary_effects [of env "text"] g by simp
  have f: "?s \<noteq> []" "\<not> includes_str ?s (str ''failed'')"
    by (simp_all add: str_def startsWith_def)
  obtain updatedFile where u: "filesDB_update env (file_id file) ?patch = Inr (Some updatedFile)"
    using assms(16) by blast
  have r: "regenerate env file text =
        (respond 200 [(str ''success'', JBool True),
                      (str ''message'', JStr (str ''Summary regenerated successfully'')),
                      (str ''summary'', JStr ?s)],
         effects @ [FilesUpdate (file_id file) ?patch])"
    using f u by (simp add: regenerate_def g Let_def)
  have m: "map_of [(str ''success'', JBool True),
                      (str ''message'', JStr (str ''Summary regenerated successfully'')),
                      (str ''summary'', JStr ?s)] (str ''summary'') = Some (JStr ?s)"
    by (simp add: str_def)
  show ?thesis
    unfolding h r using e m by (simp add: respond_def)
qed

text \<open>
  The amended C2 on the transcript \<open>hello\<close>.
\<close>

theorem handler_regenerates_summary_witness:
  "trim (str ''hello'') \<noteq> [] \<and>
   statusCode (fst (handler
      (exampleEnv (exampleFile (str ''u1'') (Some (str ''hello'')))
         (upstreamReply (str ''SUMMARY: This is a test summary that is long enough.\<newline>TOPICS: a, b'')))
      (exampleRequest ''POST''))) = 200 \<and>
   map_of (payload (fst (handler
      (exampleEnv (exampleFile (str ''u1'') (Some (str ''hello'')))
         (upstreamReply (str ''SUMMARY: This is a test summary that is long enough.\<newline>TOPICS: a, b'')))
      (exampleRequest ''POST'')))) (str ''summary'')
     = Some (JStr (str ''This is a test summary that is long enough.'')) \<and>
   filter isFilesUpdate (snd (handler
      (exampleEnv (exampleFile (str ''u1'') (Some (str ''hello'')))
         (upstreamReply (str ''SUMMARY: This is a test summary that is long enough.\<newline>TOPICS: a, b'')))
      (exampleRequest ''POST'')))
     = [FilesUpdate (str ''f1'')
          [(str ''summary'', JStr (str ''This is a test summary that is long enough.'')),
           (str ''topic'', JStr (str ''General''))]]"
proof -
  let ?f = "exampleFile (str ''u1'') (Some (str ''hello''))"
  let ?g = "str ''SUMMARY: This is a test summary that is long enough.\<newline>TOPICS: a, b''"
  have o: "userId ?f = user_id \<lparr> user_id = str ''u1'' \<rparr>"
    by (simp add: exampleFile_def)
  have t: "transcript ?f = Some (str ''hello'')"
    by (simp add: exampleFile_def)
  have f: "\<And>request. fetch (exampleEnv ?f (upstreamReply ?g)) request = Inr (upstreamReply ?g)"
    by (rule exampleEnv_fetch)
  from handler_regenerates_summary [OF exampleRequest_method exampleEnv_token
      exampleEnv_verify exampleEnv_user exampleRequest_fileId exampleEnv_file o t
      hello_valid(2) exampleEnv_key f upstreamReply_ok upstreamReply_json
      generatedText_example exampleEnv_update]
  show ?thesis using hello_valid(2) by (simp add: exampleFile_def)
qed

text \<open>
  C7: for a request that reaches the file lookup (method POST, a token that verifies
  and resolves to a user, a \<open>fileId\<close> that resolves to a file), when the \<open>userId\<close> of
  the file is not the id of the caller, the handler answers 403 and makes no datastore
  write.
\<close>

theorem handler_foreign_file_forbidden:
  assumes "req_method req = str ''POST''"
    and "getTokenFromRequest env req = Inr token"
    and "verifyToken env token = Inr (Some decoded)"
    and "usersDB_findByEmail env (email decoded) = Inr (Some user)"
    and "truthy (getProp (body req) (str ''fileId''))"
    and "filesDB_findById env (getProp (body req) (str ''fileId'')) = Inr (Some file)"
    and "userId file \<noteq> user_id user"
  shows "statusCode (fst (handler env req)) = 403 \<and>
         filter isFilesUpdate (snd (handler env req)) = []"
  using assms(7)
  by (simp add: handler_at_file [OF assms(1-6)] errorReply_def respond_def)

text \<open>
  C7 on a file of the user \<open>u2\<close>, requested by the user \<open>u1\<close>.
\<close>

theorem handler_foreign_file_forbidden_witness:
  "userId (exampleFile (str ''u2'') (Some (str ''hello''))) \<noteq> user_id \<lparr> user_id = str ''u1'' \<rparr> \<and>
   statusCode (fst (handler
      (exampleEnv (exampleFile (str ''u2'') (Some (str ''hello''))) (upstreamReply []))
      (exampleRequest ''POST''))) = 403 \<and>
   filter isFilesUpdate (snd (handler
      (exampleEnv (exampleFile (str ''u2'') (Some (str ''hello''))) (upstreamReply []))
      (exampleRequest ''POST''))) = []"
proof -
  have h: "userId (exampleFile (str ''u2'') (Some (str ''hello''))) \<noteq> user_id \<lparr> user_id = str ''u1'' \<rparr>"
    by (simp add: exampleFile_def str_def)
  from handler_foreign_file_forbidden [OF exampleRequest_method exampleEnv_token exampleEnv_verify
      exampleEnv_user exampleRequest_fileId exampleEnv_file h]
  show ?thesis using h by simp
qed

text \<open>
  C8: for a request that reaches the file lookup, when the file belongs to the caller
  and its transcript is absent or the empty string, the handler answers 400 and makes
  no outbound call.
\<close>

theorem handler_empty_transcript_rejected:
  assumes "req_method req = str ''POST''"
    and "getTokenFromRequest env req = Inr token"
    and "verifyToken env token = Inr (Some decoded)"
    and "usersDB_findByEmail env (email decoded) = Inr (Some user)"
    and "truthy (getProp (body req) (str ''fileId''))"
    and "filesDB_findById env (getProp (body req) (str ''fileId'')) = Inr (Some file)"
    and "userId file = user_id user"
    and "transcript file = None \<or> transcript file = Some []"
  shows "statusCode (fst (handler env req)) = 400 \<and>
         filter isFetch (snd (handler env req)) = []"
  using assms(7,8)
  by (auto simp add: handler_at_file [OF assms(1-6)] errorReply_def respond_def)

text \<open>
  C8 on a file whose transcript is the empty string.
\<close>

theorem handler_empty_transcript_rejected_witness:
  "transcript (exampleFile (str ''u1'') (Some [])) = Some [] \<and>
   statusCode (fst (handler
      (exampleEnv (exampleFile (str ''u1'') (Some [])) (upstreamReply []))
      (exampleRequest ''POST''))) = 400 \<and>
   filter isFetch (snd (handler
      (exampleEnv (exampleFile (str ''u1'') (Some [])) (upstreamReply []))
      (exampleRequest ''POST''))) = []"
proof -
  have o: "userId (exampleFile (str ''u1'') (Some [])) = user_id \<lparr> user_id = str ''u1'' \<rparr>"
    by (simp add: exampleFile_def)
  have t: "transcript (exampleFile (str ''u1'') (Some [])) = None \<or>
           transcript (exampleFile (str ''u1'') (Some [])) = Some []"
    by (simp add: exampleFile_def)
  from handler_empty_transcript_rejected [OF exampleRequest_method exampleEnv_token
      exampleEnv_verify exampleEnv_user exampleRequest_fileId exampleEnv_file o t]
  show ?thesis by (simp add: exampleFile_def)
qed

text \<open>
  C9: when the handler reaches the generation (the checks before it pass and the key
  is set) and \<open>generateSummary\<close> returns a string that contains \<open>failed\<close>, the
  handler answers 500 and makes no datastore write.
\<close>

theorem handler_rejects_failed_word:
  assumes "req_method req = str ''POST''"
    and "getTokenFromRequest env req = Inr token"
    and "verifyToken env token = Inr (Some decoded)"
    and "usersDB_findByEmail env (email decoded) = Inr (Some user)"
    and "truthy (getProp (body req) (str ''fileId''))"
    and "filesDB_findById env (getProp (body req) (str ''fileId'')) = Inr (Some file)"
    and "userId file = user_id user"
    and "transcript file = Some text" and "text \<noteq> []"
    and "GEMINI_API_KEY env = Some key" and "key \<noteq> []"
    and "fst (generateSummary env text) = Inr newSummary"
    and "includes_str newSummary (str ''failed'')"
  shows "statusCode (fst (handler env req)) = 500 \<and>
         filter isFilesUpdate (snd (handler env req)) = []"
proof -
  have h: "handler env req = regenerate env file text"
    using assms(7-11) by (simp add: handler_at_file [OF assms(1-6)])
  obtain effects where g: "generateSummary env text = (Inr newSummary, effects)"
    using assms(12) by (cases "generateSummary env text") auto
  have e: "filter isFilesUpdate effects = []"
    using generateSummary_effects [of env "text"] g by simp
  show ?thesis
    using assms(13) e by (simp add: h regenerate_def g errorReply_def respond_def)
qed

text \<open>
  C9 on a generated summary that is well formed and has the word in it:
  \<open>The upload failed twice before it went through.\<close>
\<close>

theorem handler_rejects_failed_word_witness:
  "fst (generateSummary
      (exampleEnv (exampleFile (str ''u1'') (Some (str ''hello'')))
         (upstreamReply (str ''SUMMARY: The upload failed twice before it went through.'')))
      (str ''hello'')) = Inr (str ''The upload failed twice before it went through.'') \<and>
   includes_str (str ''The upload failed twice before it went through.'') (str ''failed'') \<and>
   statusCode (fst (handler
      (exampleEnv (exampleFile (str ''u1'') (Some (str ''hello'')))
         (upstreamReply (str ''SUMMARY: The upload failed twice before it went through.'')))
      (exampleRequest ''POST''))) = 500 \<and>
   filter isFilesUpdate (snd (handler
      (exampleEnv (exampleFile (str ''u1'') (Some (str ''hello'')))
         (upstreamReply (str ''SUMMARY: The upload failed twice before it went through.'')))
      (exampleRequest ''POST''))) = []"
proof -
  let ?f = "exampleFile (str ''u1'') (Some (str ''hello''))"
  let ?r = "upstreamReply (str ''SUMMARY: The upload failed twice before it went through.'')"
  have o: "userId ?f = user_id \<lparr> user_id = str ''u1'' \<rparr>"
    by (simp add: exampleFile_def)
  have t: "transcript ?f = Some (str ''hello'')"
    by (simp add: exampleFile_def)
  have g: "fst (generateSummary (exampleEnv ?f ?r) (str ''hello''))
             = Inr (str ''The upload failed twice before it went through.'')"
    by (simp add: generateSummary_reads hello_valid exampleEnv_fetch upstreamReply_ok
          upstreamReply_json summaryOfResponse_def generatedText_example parseSummary_def)
       (simp add: str_def startsWith_def matchHere_def lookahead_def isWhiteSpace_def trim_def)
  have i: "includes_str (str ''The upload failed twice before it went through.'') (str ''failed'')"
    by (simp add: str_def startsWith_def)
  from handler_rejects_failed_word [OF exampleRequest_method exampleEnv_token
      exampleEnv_verify exampleEnv_user exampleRequest_fileId exampleEnv_file o t
      hello_valid(1) exampleEnv_key g i]
  show ?thesis using g i by simp
qed

end
